theory Spec2Isabelle
  imports Main "HOL-Library.Sublist"
begin

section \<open>The add command of the package manager (src/cli/commands/add.js)\<close>

text \<open>
  The class \<open>Add\<close> extends \<open>Install\<close>. It computes, for every package named on the command
  line, the version string to record, and writes that string into a dependency section of
  the root manifest of the package's registry. Code of the repository that \<open>add.js\<close> only
  calls (the pattern parser, the exotic resolvers, the integrity checker, the parent class
  \<open>Install\<close>) and the \<open>semver\<close> library are taken as parameters, collected in the record
  \<open>collaborators\<close>.
\<close>

subsection \<open>JavaScript values read from the configuration\<close>

text \<open>
  \<open>config.getOption\<close> returns an untyped value. The code converts it with \<open>String(...)\<close>
  and \<open>Boolean(...)\<close>; both conversions are written out for the kinds of value modelled
  here (numbers are not modelled).
\<close>

datatype js_value = JUndefined | JNull | JBool bool | JString string

fun js_String :: "js_value \<Rightarrow> string" where
  "js_String JUndefined = ''undefined''"
| "js_String JNull = ''null''"
| "js_String (JBool True) = ''true''"
| "js_String (JBool False) = ''false''"
| "js_String (JString s) = s"

fun js_Boolean :: "js_value \<Rightarrow> bool" where
  "js_Boolean JUndefined = False"
| "js_Boolean JNull = False"
| "js_Boolean (JBool b) = b"
| "js_Boolean (JString s) = (s \<noteq> [])"

text \<open>\<open>a || b\<close> on strings: the empty string is the only falsy string.\<close>

definition js_or :: "string \<Rightarrow> string \<Rightarrow> string" where
  "js_or a b = (if a \<noteq> [] then a else b)"

text \<open>
  \<open>s.indexOf(t)\<close>: the position of the first occurrence of \<open>t\<close> in \<open>s\<close>, or \<open>-1\<close>.
  Strings are lists of characters.
\<close>

fun indexOf_from :: "nat \<Rightarrow> string \<Rightarrow> string \<Rightarrow> int" where
  "indexOf_from i [] t = (if t = [] then int i else - 1)"
| "indexOf_from i (c # s) t = (if prefix t (c # s) then int i else indexOf_from (Suc i) s t)"

definition indexOf :: "string \<Rightarrow> string \<Rightarrow> int" where
  "indexOf s t = indexOf_from 0 s t"

subsection \<open>Data\<close>

text \<open>
  A localized message: \<open>reporter.lang(key, args...)\<close> is kept as the key and its
  arguments, so that a message names exactly what the code passed.
\<close>

datatype lang_arg = LStr string | LNum nat

datatype error =
    MessageError string "lang_arg list"
  | InvariantViolation string
  | TypeError string

datatype report =
    Warn string "lang_arg list"
  | Success string "lang_arg list"
  | Tree string "string list"

record package_reference =
  registry :: string

text \<open>The fields of a resolved package (\<open>Manifest\<close>) that the command reads.\<close>

record manifest_pkg =
  pkg_name :: string
  pkg_version :: string
  pkg_reference :: "package_reference option"

text \<open>The result of \<open>normalizePattern\<close>.\<close>

record normalized_pattern =
  np_name :: string
  np_range :: string
  np_hasVersion :: bool

record flags =
  dev :: bool
  optional :: bool
  peer :: bool
  tilde :: bool
  exact :: bool
  ignoreWorkspaceRootCheck :: bool

text \<open>
  Modelled from the spec: the type of the values of \<open>rootPatternsToOrigin\<close>, which
  \<open>Install\<close> declares and fills (it is not among the sources). The spec's
  DependencyOrigin is an enumeration of four section names; they are the four string
  literals among which the constructor of \<open>Add\<close> selects \<open>flagToOrigin\<close>, the only
  assignment to that field. \<open>origin_name\<close> is the string itself.
\<close>

datatype origin = Dependencies | DevDependencies | OptionalDependencies | PeerDependencies

fun origin_name :: "origin \<Rightarrow> string" where
  "origin_name Dependencies = ''dependencies''"
| "origin_name DevDependencies = ''devDependencies''"
| "origin_name OptionalDependencies = ''optionalDependencies''"
| "origin_name PeerDependencies = ''peerDependencies''"

text \<open>
  A dependency section maps package names to version strings; a manifest object maps
  section names to sections; the root manifests map registry names to manifest objects.
  Only the \<open>object\<close> field of a root manifest is modelled, and the order of keys in an
  object is not. The maps hold the own properties of the objects, which are plain objects
  (their prototype is \<open>Object.prototype\<close>).
\<close>

type_synonym dep_section = "string \<rightharpoonup> string"
type_synonym manifest_object = "string \<rightharpoonup> dep_section"
type_synonym root_manifests = "string \<rightharpoonup> manifest_object"

record config =
  options :: "string \<Rightarrow> js_value"
  workspaceRootFolder :: "string option"
  cwd :: string
  lockfileFolder :: string
  rootManifests :: root_manifests

definition getOption :: "config \<Rightarrow> string \<Rightarrow> js_value" where
  "getOption cfg key = options cfg key"

text \<open>
  The lockfile cache and the workspace layout are only passed on to the integrity checker.
\<close>

type_synonym lockfile_cache = "(string \<times> string) list"
type_synonym workspace_layout = "string list"

text \<open>What outlives an \<open>Add\<close> instance: the configuration and what the reporter printed.\<close>

type_synonym world = "config \<times> report list"

record integrity_match =
  integrityFileMissing :: bool

text \<open>
  The fields of \<open>Install\<close> that the command uses. \<open>rootPatternsToOrigin\<close> is an object
  whose keys are iterated in insertion order, hence an association list (in an object
  every key occurs once; no property below needs it); \<open>resolver_patterns\<close> is what
  \<open>resolver.getResolvedPattern\<close> reads.
\<close>

record install_state =
  st_flags :: flags
  st_config :: config
  reporter_log :: "report list"
  lockfile_cache :: "lockfile_cache option"
  resolver_patterns :: "string \<rightharpoonup> manifest_pkg"
  rootPatternsToOrigin :: "(string \<times> origin) list"
  scripts_force :: bool

text \<open>
  \<open>Add\<close> extends \<open>Install\<close> with three fields. \<open>flagToOrigin\<close> and \<open>addedPatterns\<close> are
  undefined (\<open>None\<close>) until they are assigned, by the constructor and by \<open>init\<close>.
\<close>

record add_state = install_state +
  args :: "string list"
  flagToOrigin :: "origin option"
  addedPatterns :: "string list option"

text \<open>
  The methods of \<open>Install\<close> know the fields that \<open>Install\<close> declares: \<open>install_of\<close> is
  that part of an instance, and \<open>put_install\<close> stores it back.
\<close>

definition install_of :: "add_state \<Rightarrow> install_state" where
  "install_of st =
     \<lparr> st_flags = st_flags st, st_config = st_config st, reporter_log = reporter_log st,
       lockfile_cache = lockfile_cache st, resolver_patterns = resolver_patterns st,
       rootPatternsToOrigin = rootPatternsToOrigin st, scripts_force = scripts_force st \<rparr>"

definition put_install :: "install_state \<Rightarrow> add_state \<Rightarrow> add_state" where
  "put_install ist st =
     st\<lparr> st_flags := st_flags ist, st_config := st_config ist,
         reporter_log := reporter_log ist, lockfile_cache := lockfile_cache ist,
         resolver_patterns := resolver_patterns ist,
         rootPatternsToOrigin := rootPatternsToOrigin ist,
         scripts_force := scripts_force ist \<rparr>"

text \<open>
  What \<open>add.js\<close> calls and does not define. The pure ones: \<open>normalizePattern\<close>,
  \<open>getExoticResolver\<close> (only the truthiness of its result is used), \<open>semver.satisfies\<close>,
  \<open>resolver.dedupePatterns\<close>, \<open>path.join\<close>, the constant \<open>LOCKFILE_FILENAME\<close>,
  \<open>fs.exists\<close>, \<open>integrityChecker.check\<close>, \<open>buildTree\<close> (its trees and its count).
  \<open>resolver.replacePattern\<close> changes what the resolver holds.
  \<open>Install.prototype.fetchRequestFromCwd\<close> takes the patterns to exclude and works on the
  fields of \<open>Install\<close>. \<open>Install.prototype.init\<close> runs the install pipeline and, in it,
  the methods that \<open>Add\<close> overrides: it works on the fields of \<open>Install\<close>, reads \<open>args\<close>
  and, through \<open>preparePatterns\<close>, pushes onto \<open>addedPatterns\<close>; no method of \<open>Install\<close>
  or of \<open>Add\<close> that it can call assigns \<open>flagToOrigin\<close> or \<open>args\<close>.
  \<open>Lockfile.fromDirectory\<close> reads the lockfile, and \<open>wrapLifecycle\<close> runs the function it
  is given between the lifecycle scripts.
\<close>

record collaborators =
  normalizePattern :: "string \<Rightarrow> normalized_pattern"
  getExoticResolver :: "string \<Rightarrow> bool"
  semver_satisfies :: "string \<Rightarrow> string \<Rightarrow> bool"
  dedupePatterns :: "(string \<rightharpoonup> manifest_pkg) \<Rightarrow> string list \<Rightarrow> string list"
  replacePattern ::
    "string \<Rightarrow> string \<Rightarrow> (string \<rightharpoonup> manifest_pkg) \<Rightarrow> error + (string \<rightharpoonup> manifest_pkg)"
  path_join :: "string \<Rightarrow> string \<Rightarrow> string"
  LOCKFILE_FILENAME :: string
  fs_exists :: "string \<Rightarrow> bool"
  integrity_check ::
    "string list \<Rightarrow> lockfile_cache \<Rightarrow> flags \<Rightarrow> workspace_layout option \<Rightarrow> integrity_match"
  buildTree :: "install_state \<Rightarrow> string list \<Rightarrow> string list \<times> nat"
  Install_fetchRequestFromCwd :: "string list \<Rightarrow> install_state \<Rightarrow> (error + unit) \<times> install_state"
  Install_init ::
    "string list \<Rightarrow> string list option \<Rightarrow> install_state
      \<Rightarrow> (error + string list) \<times> string list option \<times> install_state"
  Lockfile_fromDirectory :: "string \<Rightarrow> world \<Rightarrow> (error + lockfile_cache option) \<times> world"
  wrapLifecycle ::
    "flags \<Rightarrow> (world \<Rightarrow> (error + unit) \<times> world) \<Rightarrow> world \<Rightarrow> (error + unit) \<times> world"

subsection \<open>The constructor\<close>

text \<open>
  \<open>flag && 'section'\<close> is the section name when the flag is set and a falsy value
  (\<open>None\<close>) otherwise; \<open>filter(Boolean)\<close> drops the falsy values; \<open>shift()\<close> takes the
  first element, and is undefined on an empty array.
\<close>

definition js_and_origin :: "bool \<Rightarrow> origin \<Rightarrow> origin option" where
  "js_and_origin b s = (if b then Some s else None)"

definition filter_Boolean :: "origin option list \<Rightarrow> origin option list" where
  "filter_Boolean xs = filter (\<lambda>x. x \<noteq> None) xs"

definition shift :: "origin option list \<Rightarrow> origin option" where
  "shift xs = (case xs of [] \<Rightarrow> None | x # _ \<Rightarrow> x)"

definition select_origin :: "flags \<Rightarrow> origin option" where
  "select_origin fl =
     shift (filter_Boolean
       [js_and_origin (dev fl) DevDependencies,
        js_and_origin (optional fl) OptionalDependencies,
        js_and_origin (peer fl) PeerDependencies,
        Some Dependencies])"

text \<open>
  \<open>new Add(args, flags, config, reporter, lockfile)\<close>. The fields that \<open>Install\<close>'s
  constructor creates start empty.
\<close>

definition Add_constructor ::
  "string list \<Rightarrow> flags \<Rightarrow> config \<Rightarrow> report list \<Rightarrow> lockfile_cache option \<Rightarrow> add_state" where
  "Add_constructor as fl cfg rep lf =
     \<lparr> st_flags = fl, st_config = cfg, reporter_log = rep, lockfile_cache = lf,
       resolver_patterns = Map.empty, rootPatternsToOrigin = [], scripts_force = False,
       args = as, flagToOrigin = select_origin fl, addedPatterns = None \<rparr>"

subsection \<open>getPatternVersion\<close>

definition getPatternVersion ::
  "collaborators \<Rightarrow> add_state \<Rightarrow> string \<Rightarrow> manifest_pkg \<Rightarrow> string" where
  "getPatternVersion c st pattern pkg =
     (let tilde_flag = tilde (st_flags st);
          configPrefix = js_String (getOption (st_config st) ''save-prefix'');
          exact_flag = (exact (st_flags st)
                        \<or> js_Boolean (getOption (st_config st) ''save-exact'')
                        \<or> configPrefix = []);
          np = normalizePattern c pattern
      in if getExoticResolver c pattern then pattern
         else if np_hasVersion np \<and> np_range np \<noteq> []
                 \<and> (semver_satisfies c (pkg_version pkg) (np_range np)
                      \<or> getExoticResolver c (np_range np))
         then np_range np
         else (let pre = (if tilde_flag then ''~''
                          else if exact_flag then []
                          else js_or configPrefix ''^'')
               in pre @ pkg_version pkg))"

subsection \<open>prepareRequests, preparePatterns and fetchRequestFromCwd\<close>

text \<open>A dependency request, and \<open>prepareRequests\<close>, which appends one for every argument.\<close>

record dependency_request =
  req_pattern :: string
  req_registry :: string
  req_optional :: bool

definition prepareRequests :: "add_state \<Rightarrow> dependency_request list \<Rightarrow> dependency_request list" where
  "prepareRequests st requests =
     requests @ map (\<lambda>pattern. \<lparr>req_pattern = pattern, req_registry = ''npm'',
                                req_optional = False\<rparr>) (args st)"

text \<open>
  The loop over \<open>resolver.dedupePatterns(this.args)\<close>, its body first. \<open>invariant\<close>
  throws when the pattern has no resolved package; pushing onto an undefined
  \<open>addedPatterns\<close> throws a \<open>TypeError\<close>. The body returns the new pattern, which the
  loop pushes onto \<open>preparedPatterns\<close>.
\<close>

definition preparePatterns_step ::
  "collaborators \<Rightarrow> string \<Rightarrow> add_state \<Rightarrow> (error + string) \<times> add_state" where
  "preparePatterns_step c pattern st =
     (case resolver_patterns st pattern of
        None \<Rightarrow> (Inl (InvariantViolation (''missing package '' @ pattern)), st)
      | Some pkg \<Rightarrow>
          (let version = getPatternVersion c st pattern pkg;
               newPattern = pkg_name pkg @ ''@'' @ version
           in case addedPatterns st of
                None \<Rightarrow> (Inl (TypeError ''addedPatterns is undefined''), st)
              | Some added \<Rightarrow>
                  (let st1 = st\<lparr>addedPatterns := Some (added @ [newPattern])\<rparr>
                   in if newPattern = pattern then (Inr newPattern, st1)
                      else (case replacePattern c pattern newPattern (resolver_patterns st1) of
                              Inl e \<Rightarrow> (Inl e, st1)
                            | Inr patterns' \<Rightarrow>
                                (Inr newPattern, st1\<lparr>resolver_patterns := patterns'\<rparr>)))))"

fun preparePatterns_loop ::
  "collaborators \<Rightarrow> string list \<Rightarrow> string list \<Rightarrow> add_state \<Rightarrow> (error + string list) \<times> add_state" where
  "preparePatterns_loop c [] preparedPatterns st = (Inr preparedPatterns, st)"
| "preparePatterns_loop c (pattern # rest) preparedPatterns st =
     (case preparePatterns_step c pattern st of
        (Inl e, st') \<Rightarrow> (Inl e, st')
      | (Inr newPattern, st') \<Rightarrow>
          preparePatterns_loop c rest (preparedPatterns @ [newPattern]) st')"

definition preparePatterns ::
  "collaborators \<Rightarrow> string list \<Rightarrow> add_state \<Rightarrow> (error + string list) \<times> add_state" where
  "preparePatterns c patterns st =
     preparePatterns_loop c (dedupePatterns c (resolver_patterns st) (args st)) patterns st"

definition fetchRequestFromCwd :: "collaborators \<Rightarrow> add_state \<Rightarrow> (error + unit) \<times> add_state" where
  "fetchRequestFromCwd c st =
     (case Install_fetchRequestFromCwd c (args st) (install_of st) of
        (r, ist) \<Rightarrow> (r, put_install ist st))"

subsection \<open>bailout\<close>

definition bailout ::
  "collaborators \<Rightarrow> string list \<Rightarrow> workspace_layout option \<Rightarrow> add_state \<Rightarrow> bool \<times> add_state" where
  "bailout c patterns workspaceLayout st =
     (case lockfile_cache st of
        None \<Rightarrow> (False, st)
      | Some lockfileCache \<Rightarrow>
          (let match = integrity_check c patterns lockfileCache (st_flags st) workspaceLayout;
               haveLockfile =
                 fs_exists c (path_join c (lockfileFolder (st_config st)) (LOCKFILE_FILENAME c))
           in if integrityFileMissing match \<and> haveLockfile
              then (False, st\<lparr>scripts_force := True\<rparr>)
              else (False, st)))"

subsection \<open>savePackages\<close>

text \<open>
  The \<open>reduce\<close> over \<open>Object.keys(this.rootPatternsToOrigin)\<close>, starting from \<open>null\<close>:
  every key that starts with \<open>name@\<close> replaces the accumulator by its origin, so the last
  such key decides.
\<close>

definition lookup_depType :: "(string \<times> origin) list \<Rightarrow> string \<Rightarrow> origin option" where
  "lookup_depType rpo nm =
     fold (\<lambda>prev acc. if indexOf prev (nm @ ''@'') = 0 then map_of rpo prev else acc)
          (map fst rpo) None"

text \<open>
  \<open>depType || this.flagToOrigin\<close>: a section name is truthy, \<open>null\<close> and \<open>undefined\<close>
  (\<open>None\<close>) are not.
\<close>

definition js_or_opt :: "origin option \<Rightarrow> origin option \<Rightarrow> origin option" where
  "js_or_opt a b = (case a of None \<Rightarrow> b | Some s \<Rightarrow> Some s)"

definition save_target :: "add_state \<Rightarrow> string \<Rightarrow> origin option" where
  "save_target st nm = js_or_opt (lookup_depType (rootPatternsToOrigin st) nm) (flagToOrigin st)"

text \<open>
  The property key of \<open>object[target]\<close>: the section name, or the string \<open>undefined\<close>
  for an undefined target. None of these keys names a property of \<open>Object.prototype\<close>, so
  the read finds the own property or nothing.
\<close>

definition property_key :: "origin option \<Rightarrow> string" where
  "property_key t = (case t of None \<Rightarrow> ''undefined'' | Some s \<Rightarrow> origin_name s)"

text \<open>
  \<open>section[name] = version\<close> on a plain object, where \<open>version\<close> is a string. The name
  is any string. An own property is assigned, and a missing one is created, except for
  the name \<open>__proto__\<close>: without an own property of that name the assignment reaches the
  setter that \<open>Object.prototype\<close> has for it, which ignores a string, and the object stays
  as it is. The other properties of \<open>Object.prototype\<close> are writable data properties,
  which an assignment shadows by an own property.
\<close>

definition js_assign :: "dep_section \<Rightarrow> string \<Rightarrow> string \<Rightarrow> dep_section" where
  "js_assign section nm version =
     (if nm = ''__proto__'' \<and> section nm = None then section else section(nm \<mapsto> version))"

definition depType_arg :: "origin option \<Rightarrow> lang_arg" where
  "depType_arg d = (case d of None \<Rightarrow> LStr ''null'' | Some s \<Rightarrow> LStr (origin_name s))"

text \<open>
  One pass of the loop body on the manifests read from the configuration. It returns the
  manifests with the entry assigned and the warnings it printed, or the error it threw
  (the invariants, and the \<open>TypeError\<close> of destructuring a registry without a manifest).
  \<open>object[target] = object[target] || {}\<close> creates a missing section.
\<close>

definition savePackages_step ::
  "collaborators \<Rightarrow> add_state \<Rightarrow> string \<Rightarrow> root_manifests \<Rightarrow> error + root_manifests \<times> report list" where
  "savePackages_step c st pattern manifests =
     (case resolver_patterns st pattern of
        None \<Rightarrow> Inl (InvariantViolation (''missing package '' @ pattern))
      | Some pkg \<Rightarrow>
          (let version = getPatternVersion c st pattern pkg
           in case pkg_reference pkg of
                None \<Rightarrow> Inl (InvariantViolation ''expected package reference'')
              | Some ref \<Rightarrow>
                  (let depType = lookup_depType (rootPatternsToOrigin st) (pkg_name pkg);
                       target = js_or_opt depType (flagToOrigin st)
                   in case manifests (registry ref) of
                        None \<Rightarrow> Inl (TypeError ''cannot destructure undefined'')
                      | Some object \<Rightarrow>
                          (let section = (case object (property_key target) of
                                            None \<Rightarrow> Map.empty | Some d \<Rightarrow> d);
                               object' = object(property_key target
                                                  \<mapsto> js_assign section (pkg_name pkg) version)
                           in Inr (manifests(registry ref \<mapsto> object'),
                                   if target \<noteq> flagToOrigin st
                                   then [Warn ''moduleAlreadyInManifest''
                                           [LStr (pkg_name pkg), depType_arg depType,
                                            LStr (property_key (flagToOrigin st))]]
                                   else [])))))"

text \<open>
  The loop over \<open>this.addedPatterns\<close>: it stops at the first error; the warnings printed
  before the error stay printed.
\<close>

fun savePackages_loop ::
  "collaborators \<Rightarrow> add_state \<Rightarrow> string list \<Rightarrow> root_manifests \<Rightarrow> (error + root_manifests) \<times> report list" where
  "savePackages_loop c st [] manifests = (Inr manifests, [])"
| "savePackages_loop c st (pattern # rest) manifests =
     (case savePackages_step c st pattern manifests of
        Inl e \<Rightarrow> (Inl e, [])
      | Inr (manifests', ws) \<Rightarrow>
          (case savePackages_loop c st rest manifests' of (r, ws') \<Rightarrow> (r, ws @ ws')))"

text \<open>
  \<open>savePackages\<close>: fill \<open>rootPatternsToOrigin\<close> (\<open>Install\<close>'s \<open>fetchRequestFromCwd\<close>,
  called without patterns to exclude), read the root manifests, run the loop and save the
  manifests. An error leaves the saved manifests as they were.
\<close>

definition savePackages :: "collaborators \<Rightarrow> add_state \<Rightarrow> (error + unit) \<times> add_state" where
  "savePackages c st =
     (case Install_fetchRequestFromCwd c [] (install_of st) of
        (Inl e, ist) \<Rightarrow> (Inl e, put_install ist st)
      | (Inr _, ist) \<Rightarrow>
          (let st1 = put_install ist st;
               manifests = rootManifests (st_config st1)
           in case addedPatterns st1 of
                None \<Rightarrow> (Inl (TypeError ''addedPatterns is not iterable''), st1)
              | Some added \<Rightarrow>
                  (case savePackages_loop c st1 added manifests of
                     (r, ws) \<Rightarrow>
                       (let st2 = st1\<lparr>reporter_log := reporter_log st1 @ ws\<rparr>
                        in case r of
                             Inl e \<Rightarrow> (Inl e, st2)
                           | Inr manifests' \<Rightarrow>
                               (Inr (),
                                st2\<lparr>st_config := (st_config st2)\<lparr>rootManifests := manifests'\<rparr>\<rparr>)))))"

subsection \<open>maybeOutputSaveTree, init and run\<close>

definition maybeOutputSaveTree :: "collaborators \<Rightarrow> string list \<Rightarrow> add_state \<Rightarrow> add_state" where
  "maybeOutputSaveTree c patterns st =
     (case buildTree c (install_of st) patterns of
        (trees, count) \<Rightarrow>
          st\<lparr>reporter_log := reporter_log st
                @ [if count = 1 then Success ''savedNewDependency'' []
                   else Success ''savedNewDependencies'' [LNum count],
                   Tree ''newDependencies'' trees]\<rparr>)"

text \<open>
  \<open>workspaceRootFolder && cwd === workspaceRootFolder\<close>: an undefined or empty folder is
  falsy.
\<close>

definition isWorkspaceRoot :: "config \<Rightarrow> bool" where
  "isWorkspaceRoot cfg =
     (case workspaceRootFolder cfg of None \<Rightarrow> False | Some w \<Rightarrow> w \<noteq> [] \<and> cwd cfg = w)"

definition init :: "collaborators \<Rightarrow> add_state \<Rightarrow> (error + string list) \<times> add_state" where
  "init c st =
     (if isWorkspaceRoot (st_config st) \<and> \<not> ignoreWorkspaceRootCheck (st_flags st)
      then (Inl (MessageError ''workspacesAddRootCheck'' []), st)
      else (let st1 = st\<lparr>addedPatterns := Some []\<rparr>
            in case Install_init c (args st1) (addedPatterns st1) (install_of st1) of
                 (r, added, ist) \<Rightarrow>
                   (let st2 = put_install ist (st1\<lparr>addedPatterns := added\<rparr>)
                    in case r of
                         Inl e \<Rightarrow> (Inl e, st2)
                       | Inr patterns \<Rightarrow>
                           (let st3 = maybeOutputSaveTree c patterns st2
                            in case savePackages c st3 of
                                 (Inl e, st4) \<Rightarrow> (Inl e, st4)
                               | (Inr _, st4) \<Rightarrow> (Inr patterns, st4)))))"

definition run :: "collaborators \<Rightarrow> flags \<Rightarrow> string list \<Rightarrow> world \<Rightarrow> (error + unit) \<times> world" where
  "run c fl as w =
     (if length as = 0
      then (Inl (MessageError ''missingAddDependencies'' []), w)
      else (case Lockfile_fromDirectory c (lockfileFolder (fst w)) w of
              (Inl e, w1) \<Rightarrow> (Inl e, w1)
            | (Inr lockfile, w1) \<Rightarrow>
                wrapLifecycle c fl
                  (\<lambda>w2. let install = Add_constructor as fl (fst w2) (snd w2) lockfile
                        in case init c install of
                             (Inl e, st) \<Rightarrow> (Inl e, (st_config st, reporter_log st))
                           | (Inr _, st) \<Rightarrow> (Inr (), (st_config st, reporter_log st)))
                  w1))"

subsection \<open>Reading and writing an entry of the root manifests\<close>


definition put_section :: "string \<Rightarrow> string \<Rightarrow> string \<Rightarrow> manifest_object \<Rightarrow> manifest_object" where
  "put_section t n v obj =
     obj(t \<mapsto> js_assign (case obj t of None \<Rightarrow> Map.empty | Some d \<Rightarrow> d) n v)"

definition write_entry ::
  "string \<times> string \<times> string \<times> string \<Rightarrow> root_manifests \<Rightarrow> root_manifests" where
  "write_entry w m =
     (case w of (r, t, n, v) \<Rightarrow>
        (case m r of None \<Rightarrow> m | Some obj \<Rightarrow> m(r \<mapsto> put_section t n v obj)))"

definition write_key :: "string \<times> string \<times> string \<times> string \<Rightarrow> string \<times> string \<times> string" where
  "write_key w = (case w of (r, t, n, v) \<Rightarrow> (r, t, n))"

definition conflict_warning :: "add_state \<Rightarrow> string \<Rightarrow> report list" where
  "conflict_warning st n =
     (if save_target st n \<noteq> flagToOrigin st
      then [Warn ''moduleAlreadyInManifest''
              [LStr n, depType_arg (lookup_depType (rootPatternsToOrigin st) n),
               LStr (property_key (flagToOrigin st))]]
      else [])"

definition planned_write ::
  "collaborators \<Rightarrow> add_state \<Rightarrow> string \<Rightarrow> (string \<times> string \<times> string \<times> string) option" where
  "planned_write c st p =
     (case resolver_patterns st p of None \<Rightarrow> None
      | Some pkg \<Rightarrow>
          (case pkg_reference pkg of None \<Rightarrow> None
           | Some ref \<Rightarrow>
               Some (registry ref, property_key (save_target st (pkg_name pkg)), pkg_name pkg,
                     getPatternVersion c st p pkg)))"

definition write_warning :: "add_state \<Rightarrow> string \<times> string \<times> string \<times> string \<Rightarrow> report list" where
  "write_warning st w = (case w of (r, t, n, v) \<Rightarrow> conflict_warning st n)"


definition synthesized :: "add_state \<Rightarrow> manifest_pkg \<Rightarrow> string" where
  "synthesized st pkg =
     (if tilde (st_flags st) then ''~''
      else if exact (st_flags st)
              \<or> js_Boolean (getOption (st_config st) ''save-exact'')
              \<or> js_String (getOption (st_config st) ''save-prefix'') = []
           then []
           else js_or (js_String (getOption (st_config st) ''save-prefix'')) ''^'')
     @ pkg_version pkg"


subsection \<open>An example environment\<close>

text \<open>
  Concrete collaborators, used to evaluate the definitions above on concrete inputs: a
  parser that splits a pattern at its first \<open>@\<close>, a classifier that takes the patterns
  starting with \<open>file:\<close> for exotic, a range check that knows the ranges \<open>v\<close>, \<open>^v\<close>,
  \<open>~v\<close> and \<open>*\<close> of a version \<open>v\<close>, and an \<open>Install\<close> that does nothing.
  The states are instances of \<open>Add\<close>: \<open>merge_state\<close> has one added pattern and an
  empty manifest; in \<open>conflict_state\<close> the manifest already records the package under
  \<open>devDependencies\<close>; in \<open>two_sections_state\<close> the manifest records a package under
  both \<open>dependencies\<close> and \<open>devDependencies\<close>, and \<open>rootPatternsToOrigin\<close> holds
  its pattern under \<open>dependencies\<close>; in \<open>last_wins_state\<close> \<open>rootPatternsToOrigin\<close> has
  two patterns of one package, under two origins; \<open>two_patterns_state\<close> has two added
  patterns that resolve to two versions of one package; \<open>proto_state\<close> adds a package
  named \<open>__proto__\<close>. \<open>resolving_collaborators\<close> has an \<open>Install.init\<close> that resolves
  the argument and records the added pattern, and \<open>indexing_collaborators\<close> also a
  \<open>fetchRequestFromCwd\<close> that fills \<open>rootPatternsToOrigin\<close> from \<open>conflict_config\<close>.
\<close>

definition example_normalizePattern :: "string \<Rightarrow> normalized_pattern" where
  "example_normalizePattern p =
     (let nm = takeWhile (\<lambda>ch. ch \<noteq> CHR ''@'') p;
          rest = dropWhile (\<lambda>ch. ch \<noteq> CHR ''@'') p
      in case rest of
           [] \<Rightarrow> \<lparr>np_name = nm, np_range = ''latest'', np_hasVersion = False\<rparr>
         | _ # r \<Rightarrow> (if r \<noteq> [] then \<lparr>np_name = nm, np_range = r, np_hasVersion = True\<rparr>
                     else \<lparr>np_name = nm, np_range = ''*'', np_hasVersion = False\<rparr>))"

definition example_satisfies :: "string \<Rightarrow> string \<Rightarrow> bool" where
  "example_satisfies v r = (r = v \<or> r = ''^'' @ v \<or> r = ''~'' @ v \<or> r = ''*'')"

definition example_collaborators :: collaborators where
  "example_collaborators =
     \<lparr> normalizePattern = example_normalizePattern,
       getExoticResolver = (\<lambda>p. prefix ''file:'' p),
       semver_satisfies = example_satisfies,
       dedupePatterns = (\<lambda>resolved ps. remdups ps),
       replacePattern = (\<lambda>old new resolved.
          case resolved old of
            None \<Rightarrow> Inl (InvariantViolation (''missing package '' @ old))
          | Some pkg \<Rightarrow> Inr (resolved(old := None, new \<mapsto> pkg))),
       path_join = (\<lambda>a b. a @ ''/'' @ b),
       LOCKFILE_FILENAME = ''yarn.lock'',
       fs_exists = (\<lambda>p. p = ''/proj/yarn.lock''),
       integrity_check = (\<lambda>ps cache fl wl. \<lparr>integrityFileMissing = True\<rparr>),
       buildTree = (\<lambda>ist ps. (ps, length ps)),
       Install_fetchRequestFromCwd = (\<lambda>excluded ist. (Inr (), ist)),
       Install_init = (\<lambda>as added ist. (Inr [], added, ist)),
       Lockfile_fromDirectory = (\<lambda>dir w. (Inr None, w)),
       wrapLifecycle = (\<lambda>fl f w. f w) \<rparr>"

definition example_flags :: flags where
  "example_flags = \<lparr> dev = False, optional = False, peer = False, tilde = False, exact = False,
                      ignoreWorkspaceRootCheck = False \<rparr>"

definition example_config :: config where
  "example_config =
     \<lparr> options = (\<lambda>k. if k = ''save-prefix'' then JString ''^'' else JUndefined),
       workspaceRootFolder = None, cwd = ''/proj'', lockfileFolder = ''/proj'',
       rootManifests = [''npm'' \<mapsto> Map.empty] \<rparr>"

definition lodash :: manifest_pkg where
  "lodash = \<lparr> pkg_name = ''lodash'', pkg_version = ''4.17.21'',
              pkg_reference = Some \<lparr>registry = ''npm''\<rparr> \<rparr>"

definition example_state :: add_state where
  "example_state = Add_constructor [''lodash''] example_flags example_config [] None"


definition tilde_exact_flags :: flags where
  "tilde_exact_flags = example_flags\<lparr>tilde := True, exact := True\<rparr>"

definition exact_flags :: flags where
  "exact_flags = example_flags\<lparr>exact := True\<rparr>"

definition dev_flags :: flags where
  "dev_flags = example_flags\<lparr>dev := True\<rparr>"

definition root_state :: add_state where
  "root_state = example_state\<lparr>st_config := example_config\<lparr>workspaceRootFolder := Some ''/proj''\<rparr>\<rparr>"




definition merge_state :: add_state where
  "merge_state = example_state
     \<lparr> resolver_patterns := [''lodash@^4.17.21'' \<mapsto> lodash],
       addedPatterns := Some [''lodash@^4.17.21''] \<rparr>"

definition conflict_state :: add_state where
  "conflict_state = merge_state
     \<lparr> st_config := example_config
         \<lparr> rootManifests := [''npm'' \<mapsto> [''devDependencies'' \<mapsto> [''lodash'' \<mapsto> ''^3.0.0'']]] \<rparr>,
       rootPatternsToOrigin := [(''lodash@^3.0.0'', DevDependencies)] \<rparr>"

definition left_pad :: manifest_pkg where
  "left_pad = \<lparr> pkg_name = ''left-pad'', pkg_version = ''1.3.0'',
                pkg_reference = Some \<lparr>registry = ''npm''\<rparr> \<rparr>"

definition two_sections_state :: add_state where
  "two_sections_state = example_state
     \<lparr> st_config := example_config
         \<lparr> rootManifests :=
             [''npm'' \<mapsto> [''dependencies'' \<mapsto> [''left-pad'' \<mapsto> ''^1.0.0''],
                           ''devDependencies'' \<mapsto> [''left-pad'' \<mapsto> ''^1.1.0'']]] \<rparr>,
       rootPatternsToOrigin := [(''left-pad@^1.0.0'', Dependencies)],
       addedPatterns := Some [''left-pad@^1.3.0''],
       resolver_patterns := [''left-pad@^1.3.0'' \<mapsto> left_pad] \<rparr>"









section \<open>Properties\<close>

lemmas merge_defs = merge_state_def conflict_state_def left_pad_def two_sections_state_def



lemmas example_defs =
  example_collaborators_def example_normalizePattern_def example_satisfies_def
  example_state_def Add_constructor_def example_flags_def example_config_def lodash_def
  getOption_def tilde_exact_flags_def exact_flags_def dev_flags_def


subsection \<open>getPatternVersion\<close>

text \<open>
  C2. For a pattern that is not exotic and whose range, if any, is not echoed,
  \<open>getPatternVersion\<close> returns a prefix followed by the version of the resolved package.
  The prefix is \<open>~\<close> if the tilde flag is set; else empty if the exact flag is set, or the
  option \<open>save-exact\<close> is set, or the configured \<open>save-prefix\<close> is the empty string; else
  the configured \<open>save-prefix\<close> if it is not empty; else \<open>^\<close>. With both tilde and exact
  set the result starts with \<open>~\<close>. The configured \<open>save-prefix\<close> is the option converted
  by \<open>String\<close>, as the code reads it.
\<close>

theorem getPatternVersion_synthesized:
  assumes "\<not> getExoticResolver c pattern"
    and "\<not> (np_hasVersion (normalizePattern c pattern)
            \<and> np_range (normalizePattern c pattern) \<noteq> []
            \<and> (semver_satisfies c (pkg_version pkg) (np_range (normalizePattern c pattern))
                 \<or> getExoticResolver c (np_range (normalizePattern c pattern))))"
  shows "getPatternVersion c st pattern pkg =
           (let save_prefix = js_String (getOption (st_config st) ''save-prefix'');
                save_exact = js_Boolean (getOption (st_config st) ''save-exact'')
            in (if tilde (st_flags st) then ''~''
                else if exact (st_flags st) \<or> save_exact \<or> save_prefix = [] then []
                else if save_prefix \<noteq> [] then save_prefix
                else ''^'') @ pkg_version pkg)
         \<and> (tilde (st_flags st) \<and> exact (st_flags st)
              \<longrightarrow> prefix ''~'' (getPatternVersion c st pattern pkg))"
  using assms by (auto simp: getPatternVersion_def Let_def js_or_def)

theorem getPatternVersion_synthesized_witness:
  "\<not> getExoticResolver example_collaborators ''lodash''
   \<and> \<not> np_hasVersion (normalizePattern example_collaborators ''lodash'')
   \<and> getPatternVersion example_collaborators example_state ''lodash'' lodash = ''^4.17.21''
   \<and> tilde (st_flags (example_state\<lparr>st_flags := tilde_exact_flags\<rparr>))
   \<and> exact (st_flags (example_state\<lparr>st_flags := tilde_exact_flags\<rparr>))
   \<and> prefix ''~'' (getPatternVersion example_collaborators
                      (example_state\<lparr>st_flags := tilde_exact_flags\<rparr>) ''lodash'' lodash)"
proof -
  have h1: "\<not> getExoticResolver example_collaborators ''lodash''"
    by (simp add: example_defs)
  have h2: "\<not> np_hasVersion (normalizePattern example_collaborators ''lodash'')"
    by (simp add: example_defs)
  have h3: "tilde (st_flags (example_state\<lparr>st_flags := tilde_exact_flags\<rparr>))
            \<and> exact (st_flags (example_state\<lparr>st_flags := tilde_exact_flags\<rparr>))"
    by (simp add: example_defs)
  from h1 h2 h3
    getPatternVersion_synthesized [of example_collaborators "''lodash''" lodash example_state]
    getPatternVersion_synthesized [of example_collaborators "''lodash''" lodash
      "example_state\<lparr>st_flags := tilde_exact_flags\<rparr>"]
  show ?thesis by (simp add: example_defs)
qed

text \<open>
  C3. For a pattern \<open>name@range\<close> that is not exotic, where the version of the resolved
  package satisfies the range or the range is itself exotic, \<open>getPatternVersion\<close> returns
  the range as the user wrote it, whatever the flags and the configuration.
\<close>

theorem getPatternVersion_range_verbatim:
  assumes "\<not> getExoticResolver c pattern"
    and "np_hasVersion (normalizePattern c pattern)"
    and "np_range (normalizePattern c pattern) \<noteq> []"
    and "semver_satisfies c (pkg_version pkg) (np_range (normalizePattern c pattern))
         \<or> getExoticResolver c (np_range (normalizePattern c pattern))"
  shows "getPatternVersion c st pattern pkg = np_range (normalizePattern c pattern)"
  using assms by (simp add: getPatternVersion_def Let_def)

theorem getPatternVersion_range_verbatim_witness:
  "\<not> getExoticResolver example_collaborators ''lodash@~4.17.21''
   \<and> np_hasVersion (normalizePattern example_collaborators ''lodash@~4.17.21'')
   \<and> np_range (normalizePattern example_collaborators ''lodash@~4.17.21'') = ''~4.17.21''
   \<and> semver_satisfies example_collaborators (pkg_version lodash) ''~4.17.21''
   \<and> getPatternVersion example_collaborators (example_state\<lparr>st_flags := exact_flags\<rparr>)
        ''lodash@~4.17.21'' lodash = ''~4.17.21''"
proof -
  have h1: "\<not> getExoticResolver example_collaborators ''lodash@~4.17.21''"
    by (simp add: example_defs)
  have h2: "np_hasVersion (normalizePattern example_collaborators ''lodash@~4.17.21'')"
    by (simp add: example_defs)
  have h3: "np_range (normalizePattern example_collaborators ''lodash@~4.17.21'') = ''~4.17.21''"
    by (simp add: example_defs)
  have h4: "semver_satisfies example_collaborators (pkg_version lodash) ''~4.17.21''"
    by (simp add: example_defs)
  from h1 h2 h3 h4
    getPatternVersion_range_verbatim [of example_collaborators "''lodash@~4.17.21''" lodash
      "example_state\<lparr>st_flags := exact_flags\<rparr>"]
  show ?thesis by simp
qed

text \<open>
  C4. For an exotic pattern \<open>getPatternVersion\<close> returns the pattern itself, whatever the
  flags, the configuration and the resolved package.
\<close>

theorem getPatternVersion_exotic:
  assumes "getExoticResolver c pattern"
  shows "getPatternVersion c st pattern pkg = pattern"
  using assms by (simp add: getPatternVersion_def Let_def)

theorem getPatternVersion_exotic_witness:
  "getExoticResolver example_collaborators ''file:../lodash''
   \<and> getPatternVersion example_collaborators (example_state\<lparr>st_flags := tilde_exact_flags\<rparr>)
        ''file:../lodash'' lodash = ''file:../lodash''"
proof -
  have h: "getExoticResolver example_collaborators ''file:../lodash''"
    by (simp add: example_defs)
  from h getPatternVersion_exotic [OF h, of "example_state\<lparr>st_flags := tilde_exact_flags\<rparr>" lodash]
  show ?thesis by simp
qed

subsection \<open>bailout\<close>

text \<open>
  C6. \<open>bailout\<close> returns false for every list of patterns, lockfile cache, flags and
  workspace layout. Without a lockfile cache it changes nothing; with one, it forces the
  scripts exactly when the integrity file is reported missing and the lockfile exists.
\<close>

theorem bailout_always_false:
  "fst (bailout c patterns workspaceLayout st) = False
   \<and> (lockfile_cache st = None \<longrightarrow> snd (bailout c patterns workspaceLayout st) = st)
   \<and> (\<forall>cache. lockfile_cache st = Some cache \<longrightarrow>
         snd (bailout c patterns workspaceLayout st) =
           (if integrityFileMissing (integrity_check c patterns cache (st_flags st) workspaceLayout)
               \<and> fs_exists c (path_join c (lockfileFolder (st_config st)) (LOCKFILE_FILENAME c))
            then st\<lparr>scripts_force := True\<rparr> else st))"
  by (simp add: bailout_def Let_def split: option.split)

theorem bailout_always_false_witness:
  "lockfile_cache example_state = None
   \<and> bailout example_collaborators [''lodash''] None example_state = (False, example_state)
   \<and> lockfile_cache (example_state\<lparr>lockfile_cache := Some []\<rparr>) = Some []
   \<and> bailout example_collaborators [''lodash''] None (example_state\<lparr>lockfile_cache := Some []\<rparr>)
       = (False, example_state\<lparr>lockfile_cache := Some [], scripts_force := True\<rparr>)"
proof -
  have h1: "lockfile_cache example_state = None"
    by (simp add: example_defs)
  have h2: "lockfile_cache (example_state\<lparr>lockfile_cache := Some []\<rparr>) = Some []"
    by simp
  have e: "integrityFileMissing (integrity_check example_collaborators [''lodash''] []
              (st_flags (example_state\<lparr>lockfile_cache := Some []\<rparr>)) None)
           \<and> fs_exists example_collaborators
               (path_join example_collaborators
                  (lockfileFolder (st_config (example_state\<lparr>lockfile_cache := Some []\<rparr>)))
                  (LOCKFILE_FILENAME example_collaborators))"
    by (simp add: example_defs)
  from h1 h2 e
    bailout_always_false [of example_collaborators "[''lodash'']" None example_state]
    bailout_always_false [of example_collaborators "[''lodash'']" None
       "example_state\<lparr>lockfile_cache := Some []\<rparr>"]
  show ?thesis by (simp add: prod_eq_iff)
qed

subsection \<open>init and run\<close>

text \<open>
  C8. When the current directory is the workspace root folder and the flag
  \<open>ignoreWorkspaceRootCheck\<close> is not set, \<open>init\<close> throws the \<open>MessageError\<close> of
  \<open>workspacesAddRootCheck\<close> and leaves the instance as it was, whatever the install
  pipeline would do: no pattern is resolved or rewritten and no manifest is written.
\<close>

theorem init_workspace_root_check:
  assumes "workspaceRootFolder (st_config st) = Some w" and "w \<noteq> []"
    and "cwd (st_config st) = w"
    and "\<not> ignoreWorkspaceRootCheck (st_flags st)"
  shows "init c st = (Inl (MessageError ''workspacesAddRootCheck'' []), st)"
  using assms by (simp add: init_def isWorkspaceRoot_def)

theorem init_workspace_root_check_witness:
  "workspaceRootFolder (st_config root_state) = Some ''/proj''
   \<and> cwd (st_config root_state) = ''/proj''
   \<and> \<not> ignoreWorkspaceRootCheck (st_flags root_state)
   \<and> init example_collaborators root_state
       = (Inl (MessageError ''workspacesAddRootCheck'' []), root_state)"
proof -
  have h1: "workspaceRootFolder (st_config root_state) = Some ''/proj''"
    by (simp add: root_state_def example_defs)
  have h2: "''/proj'' \<noteq> []" by simp
  have h3: "cwd (st_config root_state) = ''/proj''"
    by (simp add: root_state_def example_defs)
  have h4: "\<not> ignoreWorkspaceRootCheck (st_flags root_state)"
    by (simp add: root_state_def example_defs)
  from h1 h3 h4 init_workspace_root_check [OF h1 h2 h3 h4, of example_collaborators]
  show ?thesis by simp
qed

text \<open>
  C10. With an empty list of arguments \<open>run\<close> throws the \<open>MessageError\<close> of
  \<open>missingAddDependencies\<close>, whatever the collaborators would do: the lockfile is not
  read, no instance is constructed, and the configuration and the reporter are unchanged.
\<close>

theorem run_without_arguments:
  assumes "as = []"
  shows "run c fl as w = (Inl (MessageError ''missingAddDependencies'' []), w)"
  using assms by (simp add: run_def)

theorem run_without_arguments_witness:
  "run example_collaborators example_flags [] (example_config, [])
     = (Inl (MessageError ''missingAddDependencies'' []), (example_config, []))"
  using run_without_arguments [of "[]" example_collaborators example_flags "(example_config, [])"]
  by simp

subsection \<open>The assignments of savePackages\<close>

lemma dom_write_entry: "dom (write_entry w m) = dom m"
  by (cases w) (auto simp: write_entry_def split: option.splits)

lemma js_assign_absorb: "js_assign (js_assign d n v') n v = js_assign d n v"
  by (cases "n = ''__proto__'' \<and> d n = None") (auto simp: js_assign_def)

lemma js_assign_commute:
  "n \<noteq> n' \<Longrightarrow> js_assign (js_assign d n' v') n v = js_assign (js_assign d n v) n' v'"
  by (auto simp: js_assign_def fun_upd_twist)

lemma put_section_commute:
  "(t, n) \<noteq> (t', n') \<Longrightarrow>
   put_section t n v (put_section t' n' v' obj) = put_section t' n' v' (put_section t n v obj)"
proof (cases "t = t'")
  case True
  assume "(t, n) \<noteq> (t', n')"
  with True have "n \<noteq> n'" by simp
  then show ?thesis using True
    by (simp add: put_section_def js_assign_commute split: option.split)
next
  case False
  then show ?thesis
    by (simp add: put_section_def fun_upd_twist split: option.split)
qed

lemma write_entry_put:
  "write_entry (r, t, n, v) m =
     (case m r of None \<Rightarrow> m | Some obj \<Rightarrow> m(r \<mapsto> put_section t n v obj))"
  by (simp add: write_entry_def put_section_def split: option.split)

lemma put_section_absorb:
  "put_section t n v (put_section t n v' obj) = put_section t n v obj"
  by (simp add: put_section_def js_assign_absorb split: option.split)

lemma write_entry_absorb:
  assumes "write_key w1 = write_key w2"
  shows "write_entry w1 (write_entry w2 m) = write_entry w1 m"
proof -
  obtain r t n v where w1: "w1 = (r, t, n, v)" by (cases w1) auto
  obtain r' t' n' v' where w2: "w2 = (r', t', n', v')" by (cases w2) auto
  from assms w1 w2 have "r' = r" "t' = t" "n' = n" by (simp_all add: write_key_def)
  then show ?thesis using w1 w2
    by (simp add: write_entry_put put_section_absorb split: option.split)
qed

lemma write_entry_commute:
  assumes "write_key w1 \<noteq> write_key w2"
  shows "write_entry w1 (write_entry w2 m) = write_entry w2 (write_entry w1 m)"
proof -
  obtain r t n v where w1: "w1 = (r, t, n, v)" by (cases w1) auto
  obtain r' t' n' v' where w2: "w2 = (r', t', n', v')" by (cases w2) auto
  show ?thesis
  proof (cases "r = r'")
    case True
    with assms w1 w2 have "(t, n) \<noteq> (t', n')" by (simp add: write_key_def)
    then show ?thesis using True w1 w2
      by (simp add: write_entry_put put_section_commute split: option.split)
  next
    case False
    then show ?thesis using w1 w2
      by (simp add: write_entry_put fun_upd_twist split: option.split)
  qed
qed

lemma fold_write_absorb:
  "write_key w1 = write_key w2 \<Longrightarrow>
   write_entry w1 (fold write_entry ws (write_entry w2 m)) = write_entry w1 (fold write_entry ws m)"
proof (induction ws arbitrary: m)
  case Nil
  then show ?case by (simp only: fold_simps id_apply write_entry_absorb)
next
  case (Cons u us)
  show ?case
  proof (cases "write_key u = write_key w2")
    case True
    then have "write_entry u (write_entry w2 m) = write_entry u m"
      by (rule write_entry_absorb)
    then show ?thesis by (simp only: fold_simps comp_apply)
  next
    case False
    then have "write_entry u (write_entry w2 m) = write_entry w2 (write_entry u m)"
      by (rule write_entry_commute)
    then have "write_entry w1 (fold write_entry (u # us) (write_entry w2 m))
               = write_entry w1 (fold write_entry us (write_entry w2 (write_entry u m)))"
      by (simp only: fold_simps comp_apply)
    also have "\<dots> = write_entry w1 (fold write_entry us (write_entry u m))"
      by (rule Cons.IH [OF Cons.prems])
    finally show ?thesis by (simp only: fold_simps comp_apply)
  qed
qed

lemma fold_write_idem:
  "fold write_entry ws (fold write_entry ws m) = fold write_entry ws m"
proof (induction ws arbitrary: m rule: rev_induct)
  case Nil
  show ?case by (simp only: fold_simps id_apply)
next
  case (snoc w ws)
  have "fold write_entry (ws @ [w]) (fold write_entry (ws @ [w]) m)
        = write_entry w (fold write_entry ws (write_entry w (fold write_entry ws m)))"
    by (simp only: fold_append fold_simps comp_apply id_apply)
  also have "\<dots> = write_entry w (fold write_entry ws (fold write_entry ws m))"
    by (rule fold_write_absorb) (rule refl)
  also have "\<dots> = write_entry w (fold write_entry ws m)"
    by (simp only: snoc.IH)
  finally show ?case by (simp only: fold_append fold_simps comp_apply id_apply)
qed


lemma savePackages_step_Inr:
  "savePackages_step c st p m = Inr (m', ws) \<longleftrightarrow>
     (\<exists>w. planned_write c st p = Some w \<and> fst w \<in> dom m \<and> m' = write_entry w m
          \<and> ws = write_warning st w)"
proof (cases "resolver_patterns st p")
  case None
  then show ?thesis by (simp add: savePackages_step_def planned_write_def)
next
  case (Some pkg)
  note pkg = this
  show ?thesis
  proof (cases "pkg_reference pkg")
    case None
    then show ?thesis using pkg by (simp add: savePackages_step_def planned_write_def Let_def)
  next
    case (Some ref)
    show ?thesis
    proof (cases "m (registry ref)")
      case None
      then show ?thesis using pkg Some
        by (auto simp add: savePackages_step_def planned_write_def Let_def)
    next
      case (Some obj)
      then show ?thesis using pkg \<open>pkg_reference pkg = Some ref\<close>
        by (auto simp add: savePackages_step_def planned_write_def Let_def write_entry_def
              put_section_def write_warning_def conflict_warning_def save_target_def)
    qed
  qed
qed

lemma dom_fold_write_entry: "dom (fold write_entry ws m) = dom m"
  by (induction ws arbitrary: m) (simp_all add: dom_write_entry)

lemma savePackages_loop_Inr:
  "savePackages_loop c st ps m = (Inr m', ws) \<longleftrightarrow>
     (\<exists>writes. map (planned_write c st) ps = map Some writes
        \<and> fst ` set writes \<subseteq> dom m
        \<and> m' = fold write_entry writes m
        \<and> ws = concat (map (write_warning st) writes))"
proof (induction ps arbitrary: m m' ws)
  case Nil
  then show ?case by auto
next
  case (Cons p ps)
  show ?case
  proof
    assume run: "savePackages_loop c st (p # ps) m = (Inr m', ws)"
    then obtain m1 ws1 where step: "savePackages_step c st p m = Inr (m1, ws1)"
      by (auto split: sum.splits)
    with run obtain ws2 where rest: "savePackages_loop c st ps m1 = (Inr m', ws2)"
      and ws: "ws = ws1 @ ws2"
      by (auto split: prod.splits)
    from step obtain w where w: "planned_write c st p = Some w" "fst w \<in> dom m"
      "m1 = write_entry w m" "ws1 = write_warning st w"
      unfolding savePackages_step_Inr by blast
    from rest obtain writes where
      writes: "map (planned_write c st) ps = map Some writes" "fst ` set writes \<subseteq> dom m1"
        "m' = fold write_entry writes m1" "ws2 = concat (map (write_warning st) writes)"
      unfolding Cons.IH by blast
    have "map (planned_write c st) (p # ps) = map Some (w # writes)"
      using w writes by simp
    moreover have "fst ` set (w # writes) \<subseteq> dom m"
      using w writes by (simp add: dom_write_entry)
    moreover have "m' = fold write_entry (w # writes) m"
      using w writes by simp
    moreover have "ws = concat (map (write_warning st) (w # writes))"
      using w writes ws by simp
    ultimately show "\<exists>writes. map (planned_write c st) (p # ps) = map Some writes
        \<and> fst ` set writes \<subseteq> dom m
        \<and> m' = fold write_entry writes m
        \<and> ws = concat (map (write_warning st) writes)"
      by blast
  next
    assume "\<exists>writes. map (planned_write c st) (p # ps) = map Some writes
        \<and> fst ` set writes \<subseteq> dom m
        \<and> m' = fold write_entry writes m
        \<and> ws = concat (map (write_warning st) writes)"
    then obtain writes where
      wr: "map (planned_write c st) (p # ps) = map Some writes" "fst ` set writes \<subseteq> dom m"
        "m' = fold write_entry writes m" "ws = concat (map (write_warning st) writes)"
      by blast
    from wr(1) obtain w rest where writes: "writes = w # rest"
      by (cases writes) auto
    with wr have w: "planned_write c st p = Some w" "fst w \<in> dom m"
      and rest: "map (planned_write c st) ps = map Some rest"
      by auto
    from w have step: "savePackages_step c st p m = Inr (write_entry w m, write_warning st w)"
      unfolding savePackages_step_Inr by blast
    have "fst ` set rest \<subseteq> dom (write_entry w m)"
      using wr(2) writes by (simp add: dom_write_entry)
    with rest have "savePackages_loop c st ps (write_entry w m)
        = (Inr (fold write_entry rest (write_entry w m)), concat (map (write_warning st) rest))"
      unfolding Cons.IH by blast
    with step show "savePackages_loop c st (p # ps) m = (Inr m', ws)"
      using wr(3,4) writes by simp
  qed
qed

text \<open>
  C7. Running the loop of \<open>savePackages\<close> a second time, on the manifests that the first
  run produced, with the same added patterns, the same resolved packages and the same
  \<open>rootPatternsToOrigin\<close>, succeeds again, leaves the manifests as they are and prints the
  same warnings.
\<close>

theorem savePackages_loop_twice:
  assumes "savePackages_loop c st ps m = (Inr m1, ws)"
  shows "savePackages_loop c st ps m1 = (Inr m1, ws)"
proof -
  from assms obtain writes where
    wr: "map (planned_write c st) ps = map Some writes" "fst ` set writes \<subseteq> dom m"
      "m1 = fold write_entry writes m" "ws = concat (map (write_warning st) writes)"
    unfolding savePackages_loop_Inr by blast
  have "fst ` set writes \<subseteq> dom m1"
    using wr(2,3) by (simp add: dom_fold_write_entry)
  moreover have "m1 = fold write_entry writes m1"
    using wr(3) by (simp only: fold_write_idem)
  ultimately show ?thesis
    unfolding savePackages_loop_Inr using wr(1,4) by blast
qed

lemma conflict_state_target:
  "lookup_depType (rootPatternsToOrigin conflict_state) ''lodash'' = Some DevDependencies"
  by (simp add: merge_defs example_defs lookup_depType_def indexOf_def)

lemma conflict_state_version:
  "getPatternVersion example_collaborators conflict_state ''lodash@^4.17.21'' lodash = ''^4.17.21''"
  by (simp add: getPatternVersion_def merge_defs example_defs Let_def)

lemma conflict_state_step:
  "savePackages_step example_collaborators conflict_state ''lodash@^4.17.21''
     [''npm'' \<mapsto> [''devDependencies'' \<mapsto> [''lodash'' \<mapsto> v]]]
   = Inr ([''npm'' \<mapsto> [''devDependencies'' \<mapsto> [''lodash'' \<mapsto> ''^4.17.21'']]],
          [Warn ''moduleAlreadyInManifest''
             [LStr ''lodash'', LStr ''devDependencies'', LStr ''dependencies'']])"
proof -
  have "resolver_patterns conflict_state ''lodash@^4.17.21'' = Some lodash"
    by (simp add: merge_defs)
  moreover have "pkg_reference lodash = Some \<lparr>registry = ''npm''\<rparr>" "pkg_name lodash = ''lodash''"
    by (simp_all add: lodash_def)
  moreover have "flagToOrigin conflict_state = Some Dependencies"
    by (simp add: merge_defs example_defs select_origin_def js_and_origin_def filter_Boolean_def
          shift_def)
  ultimately show ?thesis
    by (simp add: savePackages_step_def conflict_state_target conflict_state_version
          js_or_opt_def js_assign_def property_key_def depType_arg_def Let_def)
qed

theorem savePackages_loop_twice_witness:
  "savePackages_loop example_collaborators conflict_state [''lodash@^4.17.21'']
     [''npm'' \<mapsto> [''devDependencies'' \<mapsto> [''lodash'' \<mapsto> ''^3.0.0'']]]
   = (Inr [''npm'' \<mapsto> [''devDependencies'' \<mapsto> [''lodash'' \<mapsto> ''^4.17.21'']]],
      [Warn ''moduleAlreadyInManifest''
         [LStr ''lodash'', LStr ''devDependencies'', LStr ''dependencies'']])
   \<and> savePackages_loop example_collaborators conflict_state [''lodash@^4.17.21'']
     [''npm'' \<mapsto> [''devDependencies'' \<mapsto> [''lodash'' \<mapsto> ''^4.17.21'']]]
   = (Inr [''npm'' \<mapsto> [''devDependencies'' \<mapsto> [''lodash'' \<mapsto> ''^4.17.21'']]],
      [Warn ''moduleAlreadyInManifest''
         [LStr ''lodash'', LStr ''devDependencies'', LStr ''dependencies'']])"
proof -
  have first: "savePackages_loop example_collaborators conflict_state [''lodash@^4.17.21'']
     [''npm'' \<mapsto> [''devDependencies'' \<mapsto> [''lodash'' \<mapsto> ''^3.0.0'']]]
   = (Inr [''npm'' \<mapsto> [''devDependencies'' \<mapsto> [''lodash'' \<mapsto> ''^4.17.21'']]],
      [Warn ''moduleAlreadyInManifest''
         [LStr ''lodash'', LStr ''devDependencies'', LStr ''dependencies'']])"
    by (simp add: conflict_state_step)
  from first savePackages_loop_twice [OF first] show ?thesis by simp
qed

subsection \<open>The section that savePackages writes to\<close>




















lemma put_install_fields:
  "flagToOrigin (put_install ist st) = flagToOrigin st"
  "addedPatterns (put_install ist st) = addedPatterns st"
  "args (put_install ist st) = args st"
  "st_config (put_install ist st) = st_config ist"
  "reporter_log (put_install ist st) = reporter_log ist"
  "resolver_patterns (put_install ist st) = resolver_patterns ist"
  "rootPatternsToOrigin (put_install ist st) = rootPatternsToOrigin ist"
  by (simp_all add: put_install_def)











subsection \<open>Computing the version again\<close>

text \<open>
  \<open>preparePatterns\<close> builds the pattern \<open>name@version\<close> from the version that
  \<open>getPatternVersion\<close> returns, and \<open>savePackages\<close> calls \<open>getPatternVersion\<close> on that
  pattern. Whether the second call returns the version of the first depends on
  \<open>normalizePattern\<close> and \<open>getExoticResolver\<close>: it does where the new pattern is not
  exotic and is split into the name and the same, non-empty, range.
\<close>

lemma getPatternVersion_branches:
  "getPatternVersion c st p pkg =
     (if getExoticResolver c p then p
      else if np_hasVersion (normalizePattern c p) \<and> np_range (normalizePattern c p) \<noteq> []
              \<and> (semver_satisfies c (pkg_version pkg) (np_range (normalizePattern c p))
                   \<or> getExoticResolver c (np_range (normalizePattern c p)))
      then np_range (normalizePattern c p)
      else synthesized st pkg)"
  by (simp only: getPatternVersion_def synthesized_def Let_def)

lemma getPatternVersion_of_canonical:
  assumes v: "v = getPatternVersion c st p pkg"
    and canonical: "canonical = pkg_name pkg @ ''@'' @ v"
    and not_exotic: "\<not> getExoticResolver c canonical"
    and has: "np_hasVersion (normalizePattern c canonical)"
    and range: "np_range (normalizePattern c canonical) = v"
    and nonempty: "v \<noteq> []"
  shows "getPatternVersion c st canonical pkg = v"
proof -
  have recompute: "getPatternVersion c st canonical pkg =
      (if semver_satisfies c (pkg_version pkg) v \<or> getExoticResolver c v then v
       else synthesized st pkg)"
    using not_exotic has range nonempty by (simp add: getPatternVersion_branches)
  show ?thesis
  proof (cases "getExoticResolver c p")
    case True
    then have "v = p" using v by (simp add: getPatternVersion_branches)
    with True have "getExoticResolver c v" by simp
    then show ?thesis by (simp add: recompute)
  next
    case False
    note not_exotic_p = this
    let ?np = "normalizePattern c p"
    show ?thesis
    proof (cases "np_hasVersion ?np \<and> np_range ?np \<noteq> []
                  \<and> (semver_satisfies c (pkg_version pkg) (np_range ?np)
                       \<or> getExoticResolver c (np_range ?np))")
      case True
      then have "v = np_range ?np" using v not_exotic_p
        by (simp add: getPatternVersion_branches)
      with True have "semver_satisfies c (pkg_version pkg) v \<or> getExoticResolver c v"
        by simp
      then show ?thesis by (simp add: recompute)
    next
      case False
      then have "v = synthesized st pkg"
        using v not_exotic_p by (simp only: getPatternVersion_branches if_False)
      then show ?thesis by (simp add: recompute)
    qed
  qed
qed

subsection \<open>The origin selected by the flags\<close>

text \<open>
  The methods of \<open>Add\<close>, which \<open>Install.prototype.init\<close> calls, leave \<open>flagToOrigin\<close> as
  it is.
\<close>

lemma preparePatterns_step_flagToOrigin:
  "flagToOrigin (snd (preparePatterns_step c p st)) = flagToOrigin st"
  by (simp add: preparePatterns_step_def Let_def split: option.split sum.split)

lemma preparePatterns_loop_flagToOrigin:
  "flagToOrigin (snd (preparePatterns_loop c ps prepared st)) = flagToOrigin st"
proof (induction ps arbitrary: prepared st)
  case Nil
  show ?case by simp
next
  case (Cons p ps)
  obtain r st1 where step: "preparePatterns_step c p st = (r, st1)"
    by (cases "preparePatterns_step c p st") auto
  then have "flagToOrigin st1 = flagToOrigin st"
    using preparePatterns_step_flagToOrigin [of c p st] by simp
  then show ?case using step Cons.IH by (cases r) simp_all
qed

lemma overrides_keep_flagToOrigin:
  "flagToOrigin (snd (bailout c ps wl st)) = flagToOrigin st"
  "flagToOrigin (snd (preparePatterns c ps st)) = flagToOrigin st"
  "flagToOrigin (snd (fetchRequestFromCwd c st)) = flagToOrigin st"
  "flagToOrigin (maybeOutputSaveTree c ps st) = flagToOrigin st"
  by (simp_all add: bailout_def preparePatterns_def preparePatterns_loop_flagToOrigin
        fetchRequestFromCwd_def put_install_fields maybeOutputSaveTree_def Let_def
        split: option.split prod.split)






end
